theory Spec2Isabelle
  imports Complex_Main "HOL-Library.Char_ord" "HOL-Library.List_Lexorder"
begin

section \<open>Data model\<close>

text \<open>
  The program (\<^verbatim>\<open>app.py\<close>) fetches a forecast per climbing location, turns it into
  four parallel lists (timestamps, temperatures, humidities, precipitation), aggregates
  them per calendar day into a favorability value and draws one band per location.

  Python numbers (ints and floats of the JSON response) are modelled as \<^typ>\<open>real\<close>:
  the arithmetic of the model is exact, rounding of binary floating point is outside it.
  A calendar date is the number of days since 1970-01-01 (an \<^typ>\<open>int\<close>), which is
  also the x coordinate matplotlib's \<^verbatim>\<open>date2num\<close> gives to that day's midnight.
  A \<^verbatim>\<open>datetime\<close> carries its date and its time of day; the microsecond field is
  left out (integer timestamps have none, and no comparison the program makes with a
  whole hour depends on it).

  The values of the response are not checked by the program. The parse is modelled on
  JSON scalars; the aggregation and the renderer are modelled both on lists of numbers
  and on the lists as parsed, the two are proved to agree on numbers, and the dashboard
  runs the unchecked ones.
\<close>

record datetime =
  dt_date :: int
  dt_hour :: nat
  dt_minute :: nat
  dt_second :: nat

text \<open>
  The exceptions that occur. \<open>RequestError\<close> stands for whatever the HTTP request raises;
  \<open>ValueError\<close> out of \<^verbatim>\<open>datetime.fromtimestamp\<close> may be an
  \<^verbatim>\<open>OverflowError\<close> or \<^verbatim>\<open>OSError\<close> on some platforms (all are caught by the
  same handler).
\<close>

datatype py_error =
  KeyError string | IndexError | RequestError | TypeError | ValueError | OverflowError

text \<open>
  A scalar of the JSON response as Python holds it: a number, \<^verbatim>\<open>None\<close> (JSON null)
  or a string. JSON \<^verbatim>\<open>true\<close> and \<^verbatim>\<open>false\<close> are the numbers 1 and 0 (a
  Python \<^verbatim>\<open>bool\<close> is an \<^verbatim>\<open>int\<close> in every operation the program applies).
  Arrays and objects as values of the scalar fields, and the literals
  \<^verbatim>\<open>NaN\<close> and \<^verbatim>\<open>Infinity\<close>, are not modelled.
\<close>

datatype jval = JNum real | JNull | JStr string


datatype rain_obj = RainDict "jval option" "jval option" | RainOther





section \<open>Forecast normalizer\<close>










section \<open>Daily aggregation and scoring\<close>

text \<open>
  The first loop of \<^verbatim>\<open>daily_metrics_and_alpha_with_rain\<close> fills three
  \<^verbatim>\<open>defaultdict\<close>s. Reading a missing key of a \<^verbatim>\<open>defaultdict\<close> stores the
  default under it, which the model does too.
\<close>

record daily_acc =
  daily_temps :: "int \<rightharpoonup> real list"
  daily_humidity :: "int \<rightharpoonup> real list"
  daily_rain :: "int \<rightharpoonup> real"

definition empty_acc :: daily_acc where
  "empty_acc = \<lparr>daily_temps = Map.empty, daily_humidity = Map.empty, daily_rain = Map.empty\<rparr>"

definition dd_list :: "(int \<rightharpoonup> 'a list) \<Rightarrow> int \<Rightarrow> 'a list" where
  "dd_list m day = (case m day of None \<Rightarrow> [] | Some l \<Rightarrow> l)"

definition dd_float :: "(int \<rightharpoonup> real) \<Rightarrow> int \<Rightarrow> real" where
  "dd_float m day = (case m day of None \<Rightarrow> 0 | Some r \<Rightarrow> r)"

definition in_activity_hours :: "datetime \<Rightarrow> bool" where
  "in_activity_hours t = (9 \<le> dt_hour t \<and> dt_hour t < 16)"

fun window_step :: "daily_acc \<Rightarrow> datetime \<times> real \<times> real \<times> real \<Rightarrow> daily_acc" where
  "window_step acc (t, tf, h, rain) =
     (if in_activity_hours t then
        (let day = dt_date t;
             cur = dd_float (daily_rain acc) day;
             seen = (daily_rain acc)(day \<mapsto> cur)
         in \<lparr>daily_temps = (daily_temps acc)(day \<mapsto> dd_list (daily_temps acc) day @ [tf]),
             daily_humidity = (daily_humidity acc)(day \<mapsto> dd_list (daily_humidity acc) day @ [h]),
             daily_rain = (if rain > cur then seen(day \<mapsto> rain) else seen)\<rparr>)
      else acc)"

text \<open>\<^verbatim>\<open>zip(times, temps_f, hums, rain_mm)\<close> stops at the shortest list.\<close>

definition zip4 :: "datetime list \<Rightarrow> real list \<Rightarrow> real list \<Rightarrow> real list
    \<Rightarrow> (datetime \<times> real \<times> real \<times> real) list" where
  "zip4 tms temps_f hums rain_mm = zip tms (zip temps_f (zip hums rain_mm))"

definition window_loop :: "datetime list \<Rightarrow> real list \<Rightarrow> real list \<Rightarrow> real list \<Rightarrow> daily_acc" where
  "window_loop tms temps_f hums rain_mm =
     foldl window_step empty_acc (zip4 tms temps_f hums rain_mm)"

text \<open>\<^verbatim>\<open>sorted({t.date() for t in times})\<close>\<close>

definition all_days_of :: "datetime list \<Rightarrow> int list" where
  "all_days_of tms = sort (remdups (map dt_date tms))"

text \<open>
  Python's \<^verbatim>\<open>max\<close> over a non-empty sequence keeps a running maximum that a
  strictly larger element replaces.
\<close>

definition py_max1 :: "real \<Rightarrow> real list \<Rightarrow> real" where
  "py_max1 x xs = foldl (\<lambda>m v. if v > m then v else m) x xs"

definition py_index :: "'a list \<Rightarrow> nat \<Rightarrow> py_error + 'a" where
  "py_index xs i = (if i < length xs then Inr (xs ! i) else Inl IndexError)"

text \<open>
  \<^verbatim>\<open>max(xs[i] for i in idxs) if idxs else 0\<close>: the generator reads
  \<^verbatim>\<open>xs[i]\<close> one index at a time, and an index past the end raises.
\<close>

fun max_over :: "real list \<Rightarrow> nat list \<Rightarrow> real \<Rightarrow> py_error + real" where
  "max_over xs [] m = Inr m"
| "max_over xs (i # is) m =
     (case py_index xs i of
        Inl e \<Rightarrow> Inl e
      | Inr v \<Rightarrow> max_over xs is (if v > m then v else m))"

definition max_at :: "real list \<Rightarrow> nat list \<Rightarrow> py_error + real" where
  "max_at xs idxs =
     (case idxs of
        [] \<Rightarrow> Inr 0
      | i # is \<Rightarrow> (case py_index xs i of Inl e \<Rightarrow> Inl e | Inr v \<Rightarrow> max_over xs is v))"

text \<open>\<^verbatim>\<open>[i for i, t in enumerate(times) if t.date() == day]\<close>\<close>

definition day_idxs :: "datetime list \<Rightarrow> int \<Rightarrow> nat list" where
  "day_idxs tms day =
     map fst (filter (\<lambda>(i, t). dt_date t = day) (enumerate 0 tms))"

text \<open>
  The day's pair \<^verbatim>\<open>(max_temp, max_hum)\<close>: from the lists collected inside the
  activity hours when both are non-empty, else from every sample of the day.
\<close>

definition day_max :: "datetime list \<Rightarrow> real list \<Rightarrow> real list \<Rightarrow> daily_acc \<Rightarrow> int
    \<Rightarrow> py_error + (real \<times> real)" where
  "day_max tms temps_f hums acc day =
     (case (dd_list (daily_temps acc) day, dd_list (daily_humidity acc) day) of
        (t0 # ts, h0 # hs) \<Rightarrow> Inr (py_max1 t0 ts, py_max1 h0 hs)
      | _ \<Rightarrow>
         (let idxs = day_idxs tms day in
          case max_at temps_f idxs of
            Inl e \<Rightarrow> Inl e
          | Inr max_temp \<Rightarrow>
             (case max_at hums idxs of
                Inl e \<Rightarrow> Inl e
              | Inr max_hum \<Rightarrow> Inr (max_temp, max_hum))))"

text \<open>
  The temperature conditional, with the branch taken recorded beside the score it
  assigns (branches numbered in source order).
\<close>

datatype temp_branch = Extreme | Ideal | RampUp | RampDown | Fallback

definition temp_branch_score :: "real \<Rightarrow> temp_branch \<times> real" where
  "temp_branch_score max_temp =
     (if max_temp \<ge> 80 \<or> max_temp \<le> 32 then (Extreme, 0)
      else if 60 \<le> max_temp \<and> max_temp \<le> 69 then (Ideal, 1)
      else if 40 < max_temp \<and> max_temp < 60 then (RampUp, (max_temp - 40) / (60 - 40))
      else if 69 < max_temp \<and> max_temp < 80 then (RampDown, (80 - max_temp) / (80 - 69))
      else (Fallback, 0))"

definition temp_score :: "real \<Rightarrow> real" where
  "temp_score max_temp = snd (temp_branch_score max_temp)"

definition hum_score :: "real \<Rightarrow> real" where
  "hum_score max_hum =
     (if max_hum \<le> 50 then 1
      else if max_hum \<ge> 80 then 0
      else (80 - max_hum) / (80 - 50))"

definition min_alpha :: real where
  "min_alpha = 0"

definition max_alpha :: real where
  "max_alpha = 8 / 10"

definition day_alpha :: "real \<Rightarrow> real \<Rightarrow> real \<Rightarrow> real" where
  "day_alpha rain_amt max_temp max_hum =
     (if rain_amt > 0 then 0
      else (let combined_score = temp_score max_temp * hum_score max_hum
            in min_alpha + (max_alpha - min_alpha) * combined_score))"

record day_maps =
  alpha_map :: "int \<rightharpoonup> real"
  day_metrics :: "int \<rightharpoonup> real \<times> real"
  rain_map :: "int \<rightharpoonup> real"

definition empty_maps :: day_maps where
  "empty_maps = \<lparr>alpha_map = Map.empty, day_metrics = Map.empty, rain_map = Map.empty\<rparr>"

text \<open>The second loop, \<^verbatim>\<open>for day in all_days\<close>; an exception ends it.\<close>

fun day_loop :: "datetime list \<Rightarrow> real list \<Rightarrow> real list \<Rightarrow> daily_acc \<Rightarrow> int list
    \<Rightarrow> day_maps \<Rightarrow> py_error + day_maps" where
  "day_loop tms temps_f hums acc [] maps = Inr maps"
| "day_loop tms temps_f hums acc (day # days) maps =
     (let rain_amt = (case daily_rain acc day of None \<Rightarrow> 0 | Some r \<Rightarrow> r) in
      case day_max tms temps_f hums acc day of
        Inl e \<Rightarrow> Inl e
      | Inr (max_temp, max_hum) \<Rightarrow>
          day_loop tms temps_f hums acc days
            \<lparr>alpha_map = (alpha_map maps)(day \<mapsto> day_alpha rain_amt max_temp max_hum),
             day_metrics = (day_metrics maps)(day \<mapsto> (max_temp, max_hum)),
             rain_map = (rain_map maps)(day \<mapsto> rain_amt)\<rparr>)"

definition daily_metrics_and_alpha_with_rain ::
    "datetime list \<Rightarrow> real list \<Rightarrow> real list \<Rightarrow> real list \<Rightarrow> py_error + (day_maps \<times> int list)" where
  "daily_metrics_and_alpha_with_rain tms temps_f hums rain_mm =
     (let acc = window_loop tms temps_f hums rain_mm;
          all_days = all_days_of tms
      in case day_loop tms temps_f hums acc all_days empty_maps of
           Inl e \<Rightarrow> Inl e
         | Inr maps \<Rightarrow> Inr (maps, all_days))"

text \<open>Readers of the result: what the returned dictionaries hold for a day.\<close>

definition alpha_on :: "datetime list \<Rightarrow> real list \<Rightarrow> real list \<Rightarrow> real list \<Rightarrow> int
    \<Rightarrow> py_error + real option" where
  "alpha_on tms temps_f hums rain_mm day =
     (case daily_metrics_and_alpha_with_rain tms temps_f hums rain_mm of
        Inl e \<Rightarrow> Inl e
      | Inr (maps, all_days) \<Rightarrow> Inr (alpha_map maps day))"

definition metrics_on :: "datetime list \<Rightarrow> real list \<Rightarrow> real list \<Rightarrow> real list \<Rightarrow> int
    \<Rightarrow> py_error + (real \<times> real) option" where
  "metrics_on tms temps_f hums rain_mm day =
     (case daily_metrics_and_alpha_with_rain tms temps_f hums rain_mm of
        Inl e \<Rightarrow> Inl e
      | Inr (maps, all_days) \<Rightarrow> Inr (day_metrics maps day))"

definition rain_on :: "datetime list \<Rightarrow> real list \<Rightarrow> real list \<Rightarrow> real list \<Rightarrow> int
    \<Rightarrow> py_error + real option" where
  "rain_on tms temps_f hums rain_mm day =
     (case daily_metrics_and_alpha_with_rain tms temps_f hums rain_mm of
        Inl e \<Rightarrow> Inl e
      | Inr (maps, all_days) \<Rightarrow> Inr (rain_map maps day))"

section \<open>Daily aggregation and scoring on unchecked values\<close>

















section \<open>Dashboard renderer\<close>

text \<open>
  The drawing surface is an external collaborator: a band is the list of calls the
  renderer makes on it, in order. Colours, fonts, tick formatting, the y positions of the
  texts and the x limits of the shared axis are presentation only and are left out; the
  formatted strings \<^verbatim>\<open>f"T: {max_temp:.0f}..."\<close> and
  \<^verbatim>\<open>f"{rain_in:.2f} in"\<close> are represented by the numbers they format.
\<close>

datatype stats_label = TBD | Stats real real

datatype draw =
    PlotTemps "datetime list" "real list"
  | SetYLim real real
  | XTickLabels bool
  | VLine real
  | VSpan real real real
  | DayName real int
  | StatsText real stats_label
  | Umbrella real
  | RainText real real
  | PlotHums "datetime list" "real list"
  | PlotHumsRaw "datetime list" "jval list"
  | Title string

text \<open>\<^verbatim>\<open>t.time() >= time(h, m, s)\<close>: times of day compare field by field.\<close>

fun time_ge :: "datetime \<Rightarrow> nat \<times> nat \<times> nat \<Rightarrow> bool" where
  "time_ge t (h, m, s) =
     (dt_hour t > h \<or> (dt_hour t = h \<and>
       (dt_minute t > m \<or> (dt_minute t = m \<and> dt_second t \<ge> s))))"

definition has_post_noon_data :: "datetime list \<Rightarrow> int \<Rightarrow> bool" where
  "has_post_noon_data tms day = list_ex (\<lambda>t. dt_date t = day \<and> time_ge t (12, 0, 0)) tms"

text \<open>
  \<^verbatim>\<open>alpha = 0 if is_incomplete_day else alpha_map.get(day, 0)\<close>: the opacity the
  renderer uses for a day.
\<close>

definition shown_alpha :: "datetime list \<Rightarrow> day_maps \<Rightarrow> int \<Rightarrow> real" where
  "shown_alpha tms maps day =
     (if \<not> has_post_noon_data tms day then 0
      else (case alpha_map maps day of None \<Rightarrow> 0 | Some a \<Rightarrow> a))"

text \<open>The body of the renderer's day loop, for a day that is not skipped.\<close>

definition draw_day :: "datetime list \<Rightarrow> day_maps \<Rightarrow> int \<Rightarrow> draw list" where
  "draw_day tms maps day =
     (let start_num = real_of_int day;
          is_incomplete_day = \<not> has_post_noon_data tms day;
          alpha = shown_alpha tms maps day;
          metrics = (case day_metrics maps day of None \<Rightarrow> (0, 0) | Some p \<Rightarrow> p);
          rain_mm = (case rain_map maps day of None \<Rightarrow> 0 | Some r \<Rightarrow> r);
          rain_in = rain_mm / (254 / 10)
      in [VLine start_num]
         @ (if alpha > 0 then [VSpan start_num (start_num + 1) alpha] else [])
         @ [DayName (start_num + 5 / 10) day,
            StatsText (start_num + 5 / 10)
              (if is_incomplete_day then TBD else Stats (fst metrics) (snd metrics))]
         @ (if rain_in > 0
            then [Umbrella (start_num + 48 / 100), RainText (start_num + 52 / 100) rain_in]
            else []))"

text \<open>\<^verbatim>\<open>first_day = min(all_days) if all_days else None\<close>\<close>

definition first_day_of :: "int list \<Rightarrow> int option" where
  "first_day_of all_days =
     (case all_days of [] \<Rightarrow> None | d # ds \<Rightarrow> Some (foldl min d ds))"

definition last_day_of :: "int list \<Rightarrow> int option" where
  "last_day_of all_days =
     (case all_days of [] \<Rightarrow> None | d # ds \<Rightarrow> Some (foldl max d ds))"

definition plot_location_forecast ::
    "datetime list \<Rightarrow> real list \<Rightarrow> real list \<Rightarrow> day_maps \<Rightarrow> int list \<Rightarrow> string
     \<Rightarrow> real \<Rightarrow> bool \<Rightarrow> draw list" where
  "plot_location_forecast tms temps_f hums maps all_days loc_name temp_ylim_max show_xaxis =
     (let buf = temp_ylim_max * (5 / 100);
          ylim_top = temp_ylim_max + buf;
          first_day = first_day_of all_days
      in [PlotTemps tms temps_f, SetYLim 0 ylim_top, XTickLabels show_xaxis]
         @ concat (map (\<lambda>day. if Some day = first_day then [] else draw_day tms maps day)
                       all_days)
         @ (case last_day_of all_days of
              None \<Rightarrow> []
            | Some last_day \<Rightarrow> [VLine (real_of_int last_day + 1)])
         @ [PlotHums tms hums, SetYLim 0 105, Title loc_name])"

section \<open>Dashboard renderer on unchecked values\<close>






section \<open>Dashboard generation and the endpoint\<close>



type_synonym loc_data = "string \<times> datetime list \<times> real list \<times> real list \<times> real list"








datatype band = EmptyBand string | Band "draw list"

text \<open>
  One pass of the drawing loop of \<^verbatim>\<open>generate_dashboard_plot\<close>, on lists of numbers
  (\<open>draw_band\<close>) and on the lists as loaded (\<open>draw_band_dyn\<close>, which the dashboard runs).
\<close>

definition draw_band :: "real \<Rightarrow> nat \<Rightarrow> nat \<Rightarrow> loc_data \<Rightarrow> py_error + band" where
  "draw_band max_temp_global n i d =
     (case d of (loc_name, tms, temps_f, hums, rain_mm) \<Rightarrow>
        if tms = [] then Inr (EmptyBand loc_name)
        else
          (case daily_metrics_and_alpha_with_rain tms temps_f hums rain_mm of
             Inl e \<Rightarrow> Inl e
           | Inr (maps, all_days) \<Rightarrow>
               Inr (Band (plot_location_forecast tms temps_f hums maps all_days loc_name
                            max_temp_global (i = n - 1)))))"







section \<open>Reference definitions, in the words of the specification\<close>

text \<open>
  The temperature score of the specification: 0 at or below 32 and at or above 80, 1 on
  [60, 69], a linear ramp from 0 to 1 on (40, 60), a linear ramp from 1 down to 0 on
  (69, 80), and 0 for any other value.
\<close>

definition temperatureScore_spec :: "real \<Rightarrow> real" where
  "temperatureScore_spec t =
     (if t \<le> 32 \<or> t \<ge> 80 then 0
      else if 60 \<le> t \<and> t \<le> 69 then 1
      else if 40 < t \<and> t < 60 then 0 + (t - 40) * ((1 - 0) / (60 - 40))
      else if 69 < t \<and> t < 80 then 1 + (t - 69) * ((0 - 1) / (80 - 69))
      else 0)"

text \<open>
  The humidity score of the specification: 1 at or below 50, 0 at or above 80, a linear
  ramp from 1 down to 0 in between.
\<close>

definition humidityScore_spec :: "real \<Rightarrow> real" where
  "humidityScore_spec h =
     (if h \<le> 50 then 1
      else if h \<ge> 80 then 0
      else 1 + (h - 50) * ((0 - 1) / (80 - 50)))"





text \<open>
  A location's samples, the samples of one calendar day, and those of them whose local
  time of day lies in [09:00, 16:00).
\<close>

definition in_window :: "datetime \<Rightarrow> bool" where
  "in_window t = (time_ge t (9, 0, 0) \<and> \<not> time_ge t (16, 0, 0))"

definition samples_on :: "(datetime \<times> real \<times> real \<times> real) list \<Rightarrow> int
    \<Rightarrow> (datetime \<times> real \<times> real \<times> real) list" where
  "samples_on ss day = filter (\<lambda>s. dt_date (fst s) = day) ss"

definition window_samples_on :: "(datetime \<times> real \<times> real \<times> real) list \<Rightarrow> int
    \<Rightarrow> (datetime \<times> real \<times> real \<times> real) list" where
  "window_samples_on ss day = filter (\<lambda>s. dt_date (fst s) = day \<and> in_window (fst s)) ss"

definition temp_of :: "datetime \<times> real \<times> real \<times> real \<Rightarrow> real" where
  "temp_of s = fst (snd s)"

definition hum_of :: "datetime \<times> real \<times> real \<times> real \<Rightarrow> real" where
  "hum_of s = fst (snd (snd s))"

definition rain_of :: "datetime \<times> real \<times> real \<times> real \<Rightarrow> real" where
  "rain_of s = snd (snd (snd s))"

text \<open>The maximum of a list of readings, 0 when there is none.\<close>

definition max_or_zero :: "real list \<Rightarrow> real" where
  "max_or_zero xs = (if xs = [] then 0 else Max (set xs))"

text \<open>
  Max temperature and max humidity of a day as the specification words them: over the
  day's samples inside the activity window; over all of the day's samples when the window
  holds none; 0 when the day has no sample.
\<close>

definition day_max_spec :: "(datetime \<times> real \<times> real \<times> real) list \<Rightarrow> int \<Rightarrow> real \<times> real" where
  "day_max_spec ss day =
     (if window_samples_on ss day \<noteq> []
      then (max_or_zero (map temp_of (window_samples_on ss day)),
            max_or_zero (map hum_of (window_samples_on ss day)))
      else (max_or_zero (map temp_of (samples_on ss day)),
            max_or_zero (map hum_of (samples_on ss day))))"

text \<open>
  Max precipitation of a day as the specification words it (over all of the day's
  samples), and as restricted to the activity window.
\<close>

definition max_precip_all_spec :: "(datetime \<times> real \<times> real \<times> real) list \<Rightarrow> int \<Rightarrow> real" where
  "max_precip_all_spec ss day = Max (insert 0 (set (map rain_of (samples_on ss day))))"

definition max_precip_window :: "(datetime \<times> real \<times> real \<times> real) list \<Rightarrow> int \<Rightarrow> real" where
  "max_precip_window ss day = Max (insert 0 (set (map rain_of (window_samples_on ss day))))"

text \<open>
  The opacity the renderer uses for a day, read off the result like the values above.
\<close>

definition shown_alpha_on :: "datetime list \<Rightarrow> real list \<Rightarrow> real list \<Rightarrow> real list \<Rightarrow> int
    \<Rightarrow> py_error + real" where
  "shown_alpha_on tms temps_f hums rain_mm day =
     (case daily_metrics_and_alpha_with_rain tms temps_f hums rain_mm of
        Inl e \<Rightarrow> Inl e
      | Inr (maps, all_days) \<Rightarrow> Inr (shown_alpha tms maps day))"

text \<open>A timestamp on a given day at a given hour and minute, for concrete inputs.\<close>

definition at_time :: "int \<Rightarrow> nat \<Rightarrow> nat \<Rightarrow> datetime" where
  "at_time day h m = \<lparr>dt_date = day, dt_hour = h, dt_minute = m, dt_second = 0\<rparr>"

text \<open>
  The invariant of the day loop: a stored favorability comes with the day's stored
  precipitation and metrics, and is the score of exactly those.
\<close>

definition maps_inv :: "day_maps \<Rightarrow> bool" where
  "maps_inv maps = (\<forall>d a. alpha_map maps d = Some a \<longrightarrow>
      (\<exists>r mt mh. rain_map maps d = Some r \<and> day_metrics maps d = Some (mt, mh)
         \<and> a = day_alpha r mt mh))"












section \<open>Lemmas on the aggregation\<close>

lemmas eval_defs = daily_metrics_and_alpha_with_rain_def window_loop_def zip4_def
  empty_acc_def empty_maps_def all_days_of_def day_max_def dd_list_def dd_float_def
  in_activity_hours_def day_idxs_def max_at_def py_index_def py_max1_def
  day_alpha_def temp_score_def temp_branch_score_def hum_score_def min_alpha_def max_alpha_def
  enumerate_eq_zip Let_def

lemma proj_simps: "temp_of (t, tf, h, r) = tf" "hum_of (t, tf, h, r) = h" "rain_of (t, tf, h, r) = r"
  by (simp_all add: temp_of_def hum_of_def rain_of_def)

lemma in_activity_hours_window: "in_activity_hours t = in_window t"
  by (auto simp: in_activity_hours_def in_window_def)

lemma py_max1_Max: "py_max1 m xs = Max (insert m (set xs))"
proof (induction xs arbitrary: m)
  case Nil
  then show ?case by (simp add: py_max1_def)
next
  case (Cons x xs)
  have "py_max1 m (x # xs) = py_max1 (if x > m then x else m) xs"
    by (simp add: py_max1_def)
  also have "\<dots> = Max (insert (if x > m then x else m) (set xs))"
    by (rule Cons.IH)
  also have "\<dots> = Max (insert m (set (x # xs)))"
  proof (cases "set xs = {}")
    case True
    then show ?thesis by (auto simp: max_def)
  next
    case False
    then have "Max (insert m (insert x (set xs))) = max m (max x (Max (set xs)))"
      by simp
    moreover from False have "Max (insert (if x > m then x else m) (set xs))
        = max (if x > m then x else m) (Max (set xs))"
      by simp
    ultimately show ?thesis by (simp add: max_def)
  qed
  finally show ?case .
qed

lemma window_loop_temps:
  "daily_temps (foldl window_step acc ss) day =
     (if window_samples_on ss day = [] then daily_temps acc day
      else Some (dd_list (daily_temps acc) day @ map temp_of (window_samples_on ss day)))"
proof (induction ss arbitrary: acc)
  case Nil
  then show ?case by (simp add: window_samples_on_def)
next
  case (Cons s ss)
  obtain t tf h r where s: "s = (t, tf, h, r)" by (cases s) auto
  show ?case
    unfolding foldl_Cons Cons.IH
    by (auto simp: s window_samples_on_def in_activity_hours_window Let_def dd_list_def proj_simps)
qed

lemma window_loop_hums:
  "daily_humidity (foldl window_step acc ss) day =
     (if window_samples_on ss day = [] then daily_humidity acc day
      else Some (dd_list (daily_humidity acc) day @ map hum_of (window_samples_on ss day)))"
proof (induction ss arbitrary: acc)
  case Nil
  then show ?case by (simp add: window_samples_on_def)
next
  case (Cons s ss)
  obtain t tf h r where s: "s = (t, tf, h, r)" by (cases s) auto
  show ?case
    unfolding foldl_Cons Cons.IH
    by (auto simp: s window_samples_on_def in_activity_hours_window Let_def dd_list_def proj_simps)
qed

lemma window_loop_rain:
  "daily_rain (foldl window_step acc ss) day =
     (if window_samples_on ss day = [] then daily_rain acc day
      else Some (py_max1 (dd_float (daily_rain acc) day) (map rain_of (window_samples_on ss day))))"
proof (induction ss arbitrary: acc)
  case Nil
  then show ?case by (simp add: window_samples_on_def)
next
  case (Cons s ss)
  obtain t tf h r where s: "s = (t, tf, h, r)" by (cases s) auto
  show ?case
    unfolding foldl_Cons Cons.IH
    by (auto simp: s window_samples_on_def in_activity_hours_window Let_def dd_float_def proj_simps py_max1_def)
qed

lemma zip4_nth:
  assumes "length tf = length tms" "length hs = length tms" "length rs = length tms"
  shows "zip4 tms tf hs rs = map (\<lambda>i. (tms ! i, tf ! i, hs ! i, rs ! i)) [0..<length tms]"
  using assms by (intro nth_equalityI) (auto simp: zip4_def)

lemma day_idxs_filter:
  "day_idxs tms day = filter (\<lambda>i. dt_date (tms ! i) = day) [0..<length tms]"
proof -
  have "enumerate 0 tms = map (\<lambda>i. (i, tms ! i)) [0..<length tms]"
    by (intro nth_equalityI) (auto simp: enumerate_eq_zip)
  then show ?thesis
    by (simp add: day_idxs_def filter_map comp_def)
qed

lemma samples_on_idxs:
  assumes "length tf = length tms" "length hs = length tms" "length rs = length tms"
  shows "samples_on (zip4 tms tf hs rs) day =
           map (\<lambda>i. (tms ! i, tf ! i, hs ! i, rs ! i)) (day_idxs tms day)"
  by (simp add: zip4_nth [OF assms] samples_on_def day_idxs_filter filter_map comp_def)

lemma day_idxs_bound: "i \<in> set (day_idxs tms day) \<Longrightarrow> i < length tms"
  by (simp add: day_idxs_filter)

lemma max_over_ok:
  "(\<And>i. i \<in> set idxs \<Longrightarrow> i < length xs) \<Longrightarrow>
     max_over xs idxs m = Inr (py_max1 m (map (nth xs) idxs))"
proof (induction idxs arbitrary: m)
  case Nil
  then show ?case by (simp add: py_max1_def)
next
  case (Cons i idxs)
  then show ?case by (simp add: py_index_def py_max1_def)
qed

lemma max_at_ok:
  assumes "\<And>i. i \<in> set idxs \<Longrightarrow> i < length xs"
  shows "max_at xs idxs = Inr (max_or_zero (map (nth xs) idxs))"
proof (cases idxs)
  case Nil
  then show ?thesis by (simp add: max_at_def max_or_zero_def)
next
  case (Cons i rest)
  with assms have "max_over xs rest (xs ! i) = Inr (py_max1 (xs ! i) (map (nth xs) rest))"
    by (intro max_over_ok) simp
  with Cons assms show ?thesis
    by (simp add: max_at_def max_or_zero_def py_index_def py_max1_Max)
qed

lemma window_loop_dd_temps:
  "dd_list (daily_temps (window_loop tms tf hs rs)) day =
     map temp_of (window_samples_on (zip4 tms tf hs rs) day)"
  by (simp add: window_loop_def window_loop_temps dd_list_def empty_acc_def)

lemma window_loop_dd_hums:
  "dd_list (daily_humidity (window_loop tms tf hs rs)) day =
     map hum_of (window_samples_on (zip4 tms tf hs rs) day)"
  by (simp add: window_loop_def window_loop_hums dd_list_def empty_acc_def)

lemma window_loop_dd_rain:
  "(case daily_rain (window_loop tms tf hs rs) day of None \<Rightarrow> 0 | Some r \<Rightarrow> r) =
     max_precip_window (zip4 tms tf hs rs) day"
  by (simp add: window_loop_def window_loop_rain dd_float_def empty_acc_def
      max_precip_window_def py_max1_Max)

lemma day_max_ok:
  assumes "length tf = length tms" "length hs = length tms" "length rs = length tms"
  shows "day_max tms tf hs (window_loop tms tf hs rs) day =
           Inr (day_max_spec (zip4 tms tf hs rs) day)"
proof (cases "window_samples_on (zip4 tms tf hs rs) day")
  case Nil
  have t: "max_at tf (day_idxs tms day) = Inr (max_or_zero (map (nth tf) (day_idxs tms day)))"
    using assms by (intro max_at_ok) (simp add: day_idxs_bound)
  have h: "max_at hs (day_idxs tms day) = Inr (max_or_zero (map (nth hs) (day_idxs tms day)))"
    using assms by (intro max_at_ok) (simp add: day_idxs_bound)
  show ?thesis
    by (simp add: day_max_def Let_def window_loop_dd_temps window_loop_dd_hums Nil t h
        day_max_spec_def samples_on_idxs [OF assms] comp_def proj_simps)
next
  case (Cons w ws)
  then show ?thesis
    by (simp add: day_max_def window_loop_dd_temps window_loop_dd_hums
        day_max_spec_def max_or_zero_def py_max1_Max)
qed


lemma day_loop_ok:
  assumes "\<And>day. day \<in> set days \<Longrightarrow> day_max tms tf hs acc day = Inr (f day)"
  shows "day_loop tms tf hs acc days maps =
    Inr \<lparr>alpha_map = (\<lambda>d. if d \<in> set days
            then Some (day_alpha (case daily_rain acc d of None \<Rightarrow> 0 | Some r \<Rightarrow> r)
                         (fst (f d)) (snd (f d)))
            else alpha_map maps d),
         day_metrics = (\<lambda>d. if d \<in> set days then Some (f d) else day_metrics maps d),
         rain_map = (\<lambda>d. if d \<in> set days
            then Some (case daily_rain acc d of None \<Rightarrow> 0 | Some r \<Rightarrow> r)
            else rain_map maps d)\<rparr>"
  using assms
proof (induction days arbitrary: maps)
  case Nil
  then show ?case by simp
next
  case (Cons day days)
  obtain mt mh where fm: "f day = (mt, mh)"
    by (cases "f day") auto
  have d: "day_max tms tf hs acc day = Inr (mt, mh)"
    using Cons.prems fm by simp
  have r: "\<And>d. d \<in> set days \<Longrightarrow> day_max tms tf hs acc d = Inr (f d)"
    using Cons.prems by simp
  show ?case
    by (auto simp: d Cons.IH [OF r] Let_def fun_eq_iff fm)
qed

lemma set_all_days_of: "set (all_days_of tms) = dt_date ` set tms"
  by (simp add: all_days_of_def)

lemma daily_metrics_closed_form:
  assumes "length tf = length tms" "length hs = length tms" "length rs = length tms"
  shows "daily_metrics_and_alpha_with_rain tms tf hs rs =
    Inr (\<lparr>alpha_map = (\<lambda>d. if d \<in> dt_date ` set tms
            then Some (day_alpha (max_precip_window (zip4 tms tf hs rs) d)
                         (fst (day_max_spec (zip4 tms tf hs rs) d))
                         (snd (day_max_spec (zip4 tms tf hs rs) d)))
            else None),
         day_metrics = (\<lambda>d. if d \<in> dt_date ` set tms
            then Some (day_max_spec (zip4 tms tf hs rs) d) else None),
         rain_map = (\<lambda>d. if d \<in> dt_date ` set tms
            then Some (max_precip_window (zip4 tms tf hs rs) d) else None)\<rparr>,
        all_days_of tms)"
proof -
  have "day_loop tms tf hs (window_loop tms tf hs rs) (all_days_of tms) empty_maps = Inr
     \<lparr>alpha_map = (\<lambda>d. if d \<in> set (all_days_of tms)
            then Some (day_alpha (case daily_rain (window_loop tms tf hs rs) d of None \<Rightarrow> 0 | Some r \<Rightarrow> r)
                         (fst (day_max_spec (zip4 tms tf hs rs) d))
                         (snd (day_max_spec (zip4 tms tf hs rs) d)))
            else alpha_map empty_maps d),
         day_metrics = (\<lambda>d. if d \<in> set (all_days_of tms)
            then Some (day_max_spec (zip4 tms tf hs rs) d) else day_metrics empty_maps d),
         rain_map = (\<lambda>d. if d \<in> set (all_days_of tms)
            then Some (case daily_rain (window_loop tms tf hs rs) d of None \<Rightarrow> 0 | Some r \<Rightarrow> r)
            else rain_map empty_maps d)\<rparr>"
    by (rule day_loop_ok) (rule day_max_ok [OF assms])
  then show ?thesis
    by (auto simp: daily_metrics_and_alpha_with_rain_def Let_def window_loop_dd_rain
        set_all_days_of empty_maps_def fun_eq_iff)
qed

lemma temp_score_bounds: "0 \<le> temp_score t \<and> temp_score t \<le> 1"
  by (auto simp: temp_score_def temp_branch_score_def field_simps)

lemma hum_score_bounds: "0 \<le> hum_score h \<and> hum_score h \<le> 1"
  by (auto simp: hum_score_def field_simps)

lemma day_alpha_bounds: "0 \<le> day_alpha r t h \<and> day_alpha r t h \<le> 8 / 10"
proof -
  have a: "0 \<le> temp_score t * hum_score h"
    using temp_score_bounds hum_score_bounds by simp
  have "temp_score t * hum_score h \<le> 1 * 1"
    using temp_score_bounds hum_score_bounds by (intro mult_mono) auto
  with a show ?thesis
    by (simp add: day_alpha_def min_alpha_def max_alpha_def Let_def mult.commute)
qed

lemma day_loop_inv:
  "day_loop tms tf hs acc days maps = Inr maps' \<Longrightarrow> maps_inv maps \<Longrightarrow> maps_inv maps'"
proof (induction days arbitrary: maps)
  case Nil
  then show ?case by simp
next
  case (Cons day days)
  from Cons.prems(1) obtain mt mh where
    dm: "day_max tms tf hs acc day = Inr (mt, mh)"
    by (auto simp: Let_def split: sum.splits)
  let ?r = "case daily_rain acc day of None \<Rightarrow> 0 | Some r \<Rightarrow> r"
  let ?m = "\<lparr>alpha_map = (alpha_map maps)(day \<mapsto> day_alpha ?r mt mh),
             day_metrics = (day_metrics maps)(day \<mapsto> (mt, mh)),
             rain_map = (rain_map maps)(day \<mapsto> ?r)\<rparr>"
  have step: "day_loop tms tf hs acc days ?m = Inr maps'"
    using Cons.prems(1) by (simp add: dm Let_def)
  have "maps_inv ?m"
    using Cons.prems(2) by (auto simp: maps_inv_def)
  with step show ?case by (rule Cons.IH)
qed

lemma daily_metrics_inv:
  assumes "daily_metrics_and_alpha_with_rain tms tf hs rs = Inr (maps, days)"
  shows "maps_inv maps"
proof -
  from assms have "day_loop tms tf hs (window_loop tms tf hs rs) (all_days_of tms) empty_maps = Inr maps"
    by (auto simp: daily_metrics_and_alpha_with_rain_def Let_def split: sum.splits)
  moreover have "maps_inv empty_maps"
    by (simp add: maps_inv_def empty_maps_def)
  ultimately show ?thesis by (rule day_loop_inv)
qed

lemma favorability_in_range:
  assumes "daily_metrics_and_alpha_with_rain tms temps_f hums rain_mm = Inr (maps, days)"
      and "alpha_map maps day = Some a"
  shows "0 \<le> a \<and> a \<le> 8 / 10
     \<and> 0 \<le> shown_alpha tms maps day \<and> shown_alpha tms maps day \<le> 8 / 10
     \<and> (\<exists>r mt mh. rain_map maps day = Some r \<and> day_metrics maps day = Some (mt, mh)
          \<and> (\<not> r > 0 \<longrightarrow> a = 8 / 10 * (temp_score mt * hum_score mh))
          \<and> (\<not> r > 0 \<and> has_post_noon_data tms day \<longrightarrow>
                shown_alpha tms maps day = 8 / 10 * (temp_score mt * hum_score mh)))"
proof -
  from daily_metrics_inv [OF assms(1)] assms(2) obtain r mt mh where
    r: "rain_map maps day = Some r" and m: "day_metrics maps day = Some (mt, mh)"
    and a: "a = day_alpha r mt mh"
    unfolding maps_inv_def by blast
  have b: "0 \<le> a \<and> a \<le> 8 / 10"
    unfolding a by (rule day_alpha_bounds)
  have s: "0 \<le> shown_alpha tms maps day \<and> shown_alpha tms maps day \<le> 8 / 10"
    using b assms(2) by (simp add: shown_alpha_def)
  have e: "\<not> r > 0 \<longrightarrow> a = 8 / 10 * (temp_score mt * hum_score mh)"
    by (simp add: a day_alpha_def min_alpha_def max_alpha_def)
  have "\<not> r > 0 \<and> has_post_noon_data tms day \<longrightarrow>
                shown_alpha tms maps day = 8 / 10 * (temp_score mt * hum_score mh)"
    using e assms(2) by (simp add: shown_alpha_def)
  with b s e r m show ?thesis by blast
qed


section \<open>The aggregation and the renderer on lists of numbers agree with the unchecked ones\<close>










lemma py_index_map:
  "py_index (map JNum xs) i = (case py_index xs i of Inl e \<Rightarrow> Inl e | Inr v \<Rightarrow> Inr (JNum v))"
  by (simp add: py_index_def)












section \<open>Lemmas on the renderer and the dashboard\<close>

lemmas draw_defs = draw_band_def plot_location_forecast_def draw_day_def shown_alpha_def
  has_post_noon_data_def first_day_of_def last_day_of_def at_time_def

lemma vspan_in_day:
  "VSpan x y a \<in> set (draw_day tms maps d) \<longleftrightarrow>
     x = real_of_int d \<and> y = real_of_int d + 1 \<and> a = shown_alpha tms maps d \<and> a > 0"
  by (auto simp: draw_day_def Let_def)

lemma stats_in_day:
  "StatsText x l \<in> set (draw_day tms maps d) \<longleftrightarrow>
     x = real_of_int d + 5 / 10 \<and>
     l = (if \<not> has_post_noon_data tms d then TBD
          else Stats (fst (case day_metrics maps d of None \<Rightarrow> (0, 0) | Some p \<Rightarrow> p))
                     (snd (case day_metrics maps d of None \<Rightarrow> (0, 0) | Some p \<Rightarrow> p)))"
  by (auto simp: draw_day_def Let_def)

lemma umbrella_in_day:
  "Umbrella x \<in> set (draw_day tms maps d) \<longleftrightarrow>
     x = real_of_int d + 48 / 100 \<and> (case rain_map maps d of None \<Rightarrow> 0 | Some r \<Rightarrow> r) > 0"
  by (auto simp: draw_day_def Let_def)

lemma raintext_in_day:
  "RainText x v \<in> set (draw_day tms maps d) \<longleftrightarrow>
     x = real_of_int d + 52 / 100 \<and> (case rain_map maps d of None \<Rightarrow> 0 | Some r \<Rightarrow> r) > 0
     \<and> v = (case rain_map maps d of None \<Rightarrow> 0 | Some r \<Rightarrow> r) / (254 / 10)"
  by (auto simp: draw_day_def Let_def)

lemma vspan_in_plot:
  "VSpan x y a \<in> set (plot_location_forecast tms tf hs maps all_days nm temp_ylim_max sx) \<longleftrightarrow>
     (\<exists>d \<in> set all_days. Some d \<noteq> first_day_of all_days \<and> VSpan x y a \<in> set (draw_day tms maps d))"
  by (auto simp: plot_location_forecast_def Let_def split: option.splits)

lemma stats_in_plot:
  "StatsText x l \<in> set (plot_location_forecast tms tf hs maps all_days nm temp_ylim_max sx) \<longleftrightarrow>
     (\<exists>d \<in> set all_days. Some d \<noteq> first_day_of all_days \<and> StatsText x l \<in> set (draw_day tms maps d))"
  by (auto simp: plot_location_forecast_def Let_def split: option.splits)

lemma umbrella_in_plot:
  "Umbrella x \<in> set (plot_location_forecast tms tf hs maps all_days nm temp_ylim_max sx) \<longleftrightarrow>
     (\<exists>d \<in> set all_days. Some d \<noteq> first_day_of all_days \<and> Umbrella x \<in> set (draw_day tms maps d))"
  by (auto simp: plot_location_forecast_def Let_def split: option.splits)

lemma raintext_in_plot:
  "RainText x v \<in> set (plot_location_forecast tms tf hs maps all_days nm temp_ylim_max sx) \<longleftrightarrow>
     (\<exists>d \<in> set all_days. Some d \<noteq> first_day_of all_days \<and> RainText x v \<in> set (draw_day tms maps d))"
  by (auto simp: plot_location_forecast_def Let_def split: option.splits)
























section \<open>The claims\<close>

text \<open>
  C3 (as stated in the specification: the final else-branch of the temperature
  conditional is unreachable for every real max temperature). It is reached: at 35 the
  four preceding conditions are all false.
\<close>

theorem temp_fallback_reached_at_35: "fst (temp_branch_score 35) = Fallback"
  by (simp add: temp_branch_score_def)

text \<open>
  C3, amended: the final else-branch is taken exactly for the max temperatures in
  (32, 40], which the four preceding branches leave uncovered, and it assigns score 0
  there; every other real value is handled by one of the four preceding branches.
\<close>

theorem temp_fallback_iff:
  "(fst (temp_branch_score t) = Fallback) = (32 < t \<and> t \<le> 40) \<and>
   (temp_branch_score t = (Fallback, 0)) = (32 < t \<and> t \<le> 40)"
  by (auto simp: temp_branch_score_def)

text \<open>
  C4: the temperature and humidity scores computed by the code equal the piecewise
  reference definitions of the specification, and take the listed values at the listed
  points: temperature 32, 60, 69, 80, 50, 74.5 give 0, 1, 1, 0, 0.5, 0.5, and humidity
  50, 80, 65 give 1, 0, 0.5.
\<close>

theorem scores_match_spec:
  "temp_score t = temperatureScore_spec t \<and> hum_score h = humidityScore_spec h
   \<and> temp_score 32 = 0 \<and> temp_score 60 = 1 \<and> temp_score 69 = 1 \<and> temp_score 80 = 0
   \<and> temp_score 50 = 1 / 2 \<and> temp_score (745 / 10) = 1 / 2
   \<and> hum_score 50 = 1 \<and> hum_score 80 = 0 \<and> hum_score 65 = 1 / 2"
  by (simp add: temp_score_def temp_branch_score_def temperatureScore_spec_def
      hum_score_def humidityScore_spec_def field_simps)

text \<open>
  C1 (as stated: a day's max precipitation is taken over all samples of the day, and
  when it is positive the day's favorability is 0). A single sample at 18:00 with 2 mm
  of rain, 65 degrees and 40 percent humidity: the day's precipitation over all its
  samples is 2, but the code records 0 for the day (the sample is outside the hours
  9 to 15) and gives the day favorability 0.8.
\<close>

theorem rain_outside_window_ignored:
  "max_precip_all_spec (zip4 [at_time 0 18 0] [65] [40] [2]) 0 = 2
   \<and> rain_on [at_time 0 18 0] [65] [40] [2] 0 = Inr (Some 0)
   \<and> alpha_on [at_time 0 18 0] [65] [40] [2] 0 = Inr (Some (8 / 10))"
  by (simp add: rain_on_def alpha_on_def eval_defs max_precip_all_spec_def samples_on_def
      rain_of_def at_time_def)

text \<open>
  C1, amended: for parallel lists of equal length and every calendar day present in the
  sequence, the day's recorded max precipitation is the maximum of 0 and the
  precipitation of the day's samples whose local time of day lies in [09:00, 16:00), and
  whenever that value is positive the day's favorability is 0, whatever the temperature
  and humidity.
\<close>

theorem rain_override_window:
  assumes "length temps_f = length tms" "length hums = length tms" "length rain_mm = length tms"
      and "day \<in> set (all_days_of tms)"
  shows "rain_on tms temps_f hums rain_mm day =
           Inr (Some (max_precip_window (zip4 tms temps_f hums rain_mm) day))
     \<and> (0 < max_precip_window (zip4 tms temps_f hums rain_mm) day \<longrightarrow>
           alpha_on tms temps_f hums rain_mm day = Inr (Some 0))"
  using assms(4)
  by (simp add: rain_on_def alpha_on_def daily_metrics_closed_form [OF assms(1-3)]
      set_all_days_of day_alpha_def)

theorem rain_override_window_witness:
  "length [68, 70, 72 :: real] = length [at_time 0 10 0, at_time 0 13 0, at_time 0 18 0]
   \<and> 0 \<in> set (all_days_of [at_time 0 10 0, at_time 0 13 0, at_time 0 18 0])
   \<and> rain_on [at_time 0 10 0, at_time 0 13 0, at_time 0 18 0] [68, 70, 72] [55, 50, 48] [0, 2, 0] 0
       = Inr (Some 2)
   \<and> alpha_on [at_time 0 10 0, at_time 0 13 0, at_time 0 18 0] [68, 70, 72] [55, 50, 48] [0, 2, 0] 0
       = Inr (Some 0)"
  using rain_override_window [of "[68, 70, 72]" "[at_time 0 10 0, at_time 0 13 0, at_time 0 18 0]" "[55, 50, 48]" "[0, 2, 0]" 0]
  by (simp add: all_days_of_def max_precip_window_def window_samples_on_def zip4_def
      in_window_def rain_of_def at_time_def)

text \<open>
  C5: for parallel lists of equal length, the day's pair of max temperature and max
  humidity is the pair of maxima over the day's samples whose local time of day lies in
  [09:00, 16:00); when the day has no such sample, the pair of maxima over all of the
  day's samples; and (0, 0) when the day has no sample at all. The first conjunct is the
  per-day computation for any day, the second what the returned dictionary holds for a
  day of the sequence.
\<close>

theorem day_max_window_then_all:
  assumes "length temps_f = length tms" "length hums = length tms" "length rain_mm = length tms"
  shows "day_max tms temps_f hums (window_loop tms temps_f hums rain_mm) day =
           Inr (day_max_spec (zip4 tms temps_f hums rain_mm) day)
     \<and> (day \<in> set (all_days_of tms) \<longrightarrow>
           metrics_on tms temps_f hums rain_mm day =
             Inr (Some (day_max_spec (zip4 tms temps_f hums rain_mm) day)))
     \<and> (samples_on (zip4 tms temps_f hums rain_mm) day = [] \<longrightarrow>
           day_max_spec (zip4 tms temps_f hums rain_mm) day = (0, 0))"
proof -
  have w: "window_samples_on ss day = filter (\<lambda>s. in_window (fst s)) (samples_on ss day)" for ss
    by (simp add: window_samples_on_def samples_on_def conj_commute)
  have "samples_on (zip4 tms temps_f hums rain_mm) day = [] \<longrightarrow>
           day_max_spec (zip4 tms temps_f hums rain_mm) day = (0, 0)"
    by (simp add: day_max_spec_def w max_or_zero_def)
  then show ?thesis
    by (simp add: day_max_ok [OF assms] metrics_on_def daily_metrics_closed_form [OF assms]
        set_all_days_of)
qed

theorem day_max_window_then_all_witness:
  "length [68, 70, 72, 50, 52 :: real] =
     length [at_time 0 10 0, at_time 0 13 0, at_time 0 18 0, at_time 1 3 0, at_time 1 6 0]
   \<and> 1 \<in> set (all_days_of [at_time 0 10 0, at_time 0 13 0, at_time 0 18 0, at_time 1 3 0, at_time 1 6 0])
   \<and> metrics_on [at_time 0 10 0, at_time 0 13 0, at_time 0 18 0, at_time 1 3 0, at_time 1 6 0]
        [68, 70, 72, 50, 52] [55, 50, 48, 90, 85] [0, 0, 0, 0, 0] 0 = Inr (Some (70, 55))
   \<and> metrics_on [at_time 0 10 0, at_time 0 13 0, at_time 0 18 0, at_time 1 3 0, at_time 1 6 0]
        [68, 70, 72, 50, 52] [55, 50, 48, 90, 85] [0, 0, 0, 0, 0] 1 = Inr (Some (52, 90))
   \<and> day_max [at_time 0 10 0, at_time 0 13 0, at_time 0 18 0, at_time 1 3 0, at_time 1 6 0]
        [68, 70, 72, 50, 52] [55, 50, 48, 90, 85]
        (window_loop [at_time 0 10 0, at_time 0 13 0, at_time 0 18 0, at_time 1 3 0, at_time 1 6 0]
           [68, 70, 72, 50, 52] [55, 50, 48, 90, 85] [0, 0, 0, 0, 0]) 2 = Inr (0, 0)"
  using day_max_window_then_all [of "[68, 70, 72, 50, 52]"
      "[at_time 0 10 0, at_time 0 13 0, at_time 0 18 0, at_time 1 3 0, at_time 1 6 0]"
      "[55, 50, 48, 90, 85]" "[0, 0, 0, 0, 0]" 0]
    day_max_window_then_all [of "[68, 70, 72, 50, 52]"
      "[at_time 0 10 0, at_time 0 13 0, at_time 0 18 0, at_time 1 3 0, at_time 1 6 0]"
      "[55, 50, 48, 90, 85]" "[0, 0, 0, 0, 0]" 1]
    day_max_window_then_all [of "[68, 70, 72, 50, 52]"
      "[at_time 0 10 0, at_time 0 13 0, at_time 0 18 0, at_time 1 3 0, at_time 1 6 0]"
      "[55, 50, 48, 90, 85]" "[0, 0, 0, 0, 0]" 2]
  by (simp add: all_days_of_def day_max_spec_def window_samples_on_def samples_on_def zip4_def
      in_window_def temp_of_def hum_of_def max_or_zero_def at_time_def)

text \<open>
  C6: every favorability value the scorer stores lies in [0, 0.8], and so does the
  opacity the renderer derives from it; when the day's recorded precipitation is not
  positive the stored value is 0.8 times the product of the temperature score and the
  humidity score of the day's metrics, and when in addition the day has a sample at or
  after 12:00 the rendered opacity is that same product.
\<close>

theorem favorability_range:
  assumes "alpha_on tms temps_f hums rain_mm day = Inr (Some a)"
  shows "0 \<le> a \<and> a \<le> 8 / 10
     \<and> (\<exists>s r mt mh. shown_alpha_on tms temps_f hums rain_mm day = Inr s
          \<and> 0 \<le> s \<and> s \<le> 8 / 10
          \<and> rain_on tms temps_f hums rain_mm day = Inr (Some r)
          \<and> metrics_on tms temps_f hums rain_mm day = Inr (Some (mt, mh))
          \<and> (\<not> r > 0 \<longrightarrow> a = 8 / 10 * (temp_score mt * hum_score mh))
          \<and> (\<not> r > 0 \<and> has_post_noon_data tms day \<longrightarrow>
                s = 8 / 10 * (temp_score mt * hum_score mh)))"
proof -
  from assms obtain maps days where
    res: "daily_metrics_and_alpha_with_rain tms temps_f hums rain_mm = Inr (maps, days)"
    and a: "alpha_map maps day = Some a"
    by (auto simp: alpha_on_def split: sum.splits)
  from favorability_in_range [OF res a] show ?thesis
    by (simp add: shown_alpha_on_def rain_on_def metrics_on_def res)
qed

theorem favorability_range_witness:
  "alpha_on [at_time 0 10 0, at_time 0 13 0, at_time 0 18 0] [68, 70, 72] [55, 50, 48] [0, 0, 0] 0
     = Inr (Some (20 / 33))
   \<and> (0 :: real) \<le> 20 / 33 \<and> (20 / 33 :: real) \<le> 8 / 10
   \<and> shown_alpha_on [at_time 0 10 0, at_time 0 13 0, at_time 0 18 0] [68, 70, 72] [55, 50, 48] [0, 0, 0] 0
     = Inr (20 / 33)
   \<and> (20 / 33 :: real) = 8 / 10 * (temp_score 70 * hum_score 55)"
  using favorability_range [of "[at_time 0 10 0, at_time 0 13 0, at_time 0 18 0]"
      "[68, 70, 72]" "[55, 50, 48]" "[0, 0, 0]" 0 "20 / 33"]
  by (simp add: alpha_on_def shown_alpha_on_def shown_alpha_def has_post_noon_data_def
      at_time_def eval_defs)

text \<open>
  C2 (as stated: every day with no sample at or after 12:00 is rendered with
  favorability 0 and the label "T: TBD, H: TBD"). A location whose only day has samples
  at 06:00 and 09:30: the day has no sample at or after 12:00, yet the band holds no
  stats label at all, because the renderer skips the first day of the range.
\<close>

theorem first_day_incomplete_no_label:
  "\<not> has_post_noon_data [at_time 0 6 0, at_time 0 9 30] 0
   \<and> draw_band 65 5 0 (''Farley'', [at_time 0 6 0, at_time 0 9 30], [65, 65], [40, 40], [0, 0])
      = Inr (Band [PlotTemps [at_time 0 6 0, at_time 0 9 30] [65, 65],
                   SetYLim 0 (65 + 65 * (5 / 100)), XTickLabels False,
                   VLine 1,
                   PlotHums [at_time 0 6 0, at_time 0 9 30] [40, 40], SetYLim 0 105,
                   Title ''Farley''])"
  by (simp add: draw_defs eval_defs)

text \<open>
  C2, amended: for every day of the range that has no sample at or after 12:00 local
  time, the opacity is 0, no shaded span is drawn for the day and no stats label of
  computed values is drawn for it, whatever the stored favorability and metrics are; if
  the day is not the first day of the range its stats label is "T: TBD, H: TBD", and if
  it is the first day of the range the renderer skips it and draws no stats label for it
  at all.
\<close>

theorem incomplete_day_tbd:
  assumes "day \<in> set all_days" and "\<not> has_post_noon_data tms day"
  shows "shown_alpha tms maps day = 0
     \<and> (\<forall>a. VSpan (real_of_int day) (real_of_int day + 1) a
          \<notin> set (plot_location_forecast tms temps_f hums maps all_days loc_name temp_ylim_max show_xaxis))
     \<and> (\<forall>mt mh. StatsText (real_of_int day + 5 / 10) (Stats mt mh)
          \<notin> set (plot_location_forecast tms temps_f hums maps all_days loc_name temp_ylim_max show_xaxis))
     \<and> (if Some day = first_day_of all_days
         then \<forall>l. StatsText (real_of_int day + 5 / 10) l
            \<notin> set (plot_location_forecast tms temps_f hums maps all_days loc_name temp_ylim_max show_xaxis)
         else StatsText (real_of_int day + 5 / 10) TBD
            \<in> set (plot_location_forecast tms temps_f hums maps all_days loc_name temp_ylim_max show_xaxis))"
proof -
  have a: "shown_alpha tms maps day = 0"
    using assms(2) by (simp add: shown_alpha_def)
  have v: "VSpan (real_of_int day) (real_of_int day + 1) a
          \<notin> set (plot_location_forecast tms temps_f hums maps all_days loc_name temp_ylim_max show_xaxis)" for a
    unfolding vspan_in_plot vspan_in_day using a by auto
  have s: "StatsText (real_of_int day + 5 / 10) (Stats mt mh)
          \<notin> set (plot_location_forecast tms temps_f hums maps all_days loc_name temp_ylim_max show_xaxis)" for mt mh
    unfolding stats_in_plot stats_in_day using assms(2) by auto
  have f: "StatsText (real_of_int day + 5 / 10) l
          \<notin> set (plot_location_forecast tms temps_f hums maps all_days loc_name temp_ylim_max show_xaxis)"
    if "Some day = first_day_of all_days" for l
    unfolding stats_in_plot stats_in_day using that by auto
  have t: "StatsText (real_of_int day + 5 / 10) TBD
          \<in> set (plot_location_forecast tms temps_f hums maps all_days loc_name temp_ylim_max show_xaxis)"
    if "Some day \<noteq> first_day_of all_days"
    unfolding stats_in_plot stats_in_day using that assms by auto
  from a v s f t show ?thesis by simp
qed

theorem incomplete_day_tbd_witness:
  "0 \<in> set (all_days_of [at_time 0 6 0, at_time 0 9 30, at_time 1 6 0, at_time 1 9 30])
   \<and> 1 \<in> set (all_days_of [at_time 0 6 0, at_time 0 9 30, at_time 1 6 0, at_time 1 9 30])
   \<and> Some 0 = first_day_of (all_days_of [at_time 0 6 0, at_time 0 9 30, at_time 1 6 0, at_time 1 9 30])
   \<and> \<not> has_post_noon_data [at_time 0 6 0, at_time 0 9 30, at_time 1 6 0, at_time 1 9 30] 0
   \<and> \<not> has_post_noon_data [at_time 0 6 0, at_time 0 9 30, at_time 1 6 0, at_time 1 9 30] 1
   \<and> shown_alpha [at_time 0 6 0, at_time 0 9 30, at_time 1 6 0, at_time 1 9 30]
        \<lparr>alpha_map = [0 \<mapsto> 8 / 10, 1 \<mapsto> 8 / 10], day_metrics = [0 \<mapsto> (65, 40), 1 \<mapsto> (65, 40)],
         rain_map = [0 \<mapsto> 0, 1 \<mapsto> 0]\<rparr> 1 = 0
   \<and> StatsText (3 / 2) TBD \<in> set (plot_location_forecast
        [at_time 0 6 0, at_time 0 9 30, at_time 1 6 0, at_time 1 9 30] [65, 65, 65, 65] [40, 40, 40, 40]
        \<lparr>alpha_map = [0 \<mapsto> 8 / 10, 1 \<mapsto> 8 / 10], day_metrics = [0 \<mapsto> (65, 40), 1 \<mapsto> (65, 40)],
         rain_map = [0 \<mapsto> 0, 1 \<mapsto> 0]\<rparr>
        (all_days_of [at_time 0 6 0, at_time 0 9 30, at_time 1 6 0, at_time 1 9 30]) ''Farley'' 65 False)
   \<and> VSpan 1 2 (8 / 10) \<notin> set (plot_location_forecast
        [at_time 0 6 0, at_time 0 9 30, at_time 1 6 0, at_time 1 9 30] [65, 65, 65, 65] [40, 40, 40, 40]
        \<lparr>alpha_map = [0 \<mapsto> 8 / 10, 1 \<mapsto> 8 / 10], day_metrics = [0 \<mapsto> (65, 40), 1 \<mapsto> (65, 40)],
         rain_map = [0 \<mapsto> 0, 1 \<mapsto> 0]\<rparr>
        (all_days_of [at_time 0 6 0, at_time 0 9 30, at_time 1 6 0, at_time 1 9 30]) ''Farley'' 65 False)
   \<and> StatsText (1 / 2) TBD \<notin> set (plot_location_forecast
        [at_time 0 6 0, at_time 0 9 30, at_time 1 6 0, at_time 1 9 30] [65, 65, 65, 65] [40, 40, 40, 40]
        \<lparr>alpha_map = [0 \<mapsto> 8 / 10, 1 \<mapsto> 8 / 10], day_metrics = [0 \<mapsto> (65, 40), 1 \<mapsto> (65, 40)],
         rain_map = [0 \<mapsto> 0, 1 \<mapsto> 0]\<rparr>
        (all_days_of [at_time 0 6 0, at_time 0 9 30, at_time 1 6 0, at_time 1 9 30]) ''Farley'' 65 False)"
proof -
  have h0: "0 \<in> set (all_days_of [at_time 0 6 0, at_time 0 9 30, at_time 1 6 0, at_time 1 9 30])"
    and h1: "1 \<in> set (all_days_of [at_time 0 6 0, at_time 0 9 30, at_time 1 6 0, at_time 1 9 30])"
    by (simp_all add: all_days_of_def at_time_def)
  have f0: "Some 0 = first_day_of (all_days_of [at_time 0 6 0, at_time 0 9 30, at_time 1 6 0, at_time 1 9 30])"
    and f1: "Some 1 \<noteq> first_day_of (all_days_of [at_time 0 6 0, at_time 0 9 30, at_time 1 6 0, at_time 1 9 30])"
    by (simp_all add: all_days_of_def at_time_def first_day_of_def)
  have n0: "\<not> has_post_noon_data [at_time 0 6 0, at_time 0 9 30, at_time 1 6 0, at_time 1 9 30] 0"
    and n1: "\<not> has_post_noon_data [at_time 0 6 0, at_time 0 9 30, at_time 1 6 0, at_time 1 9 30] 1"
    by (simp_all add: has_post_noon_data_def at_time_def)
  from incomplete_day_tbd [OF h0 n0, of
        "\<lparr>alpha_map = [0 \<mapsto> 8 / 10, 1 \<mapsto> 8 / 10], day_metrics = [0 \<mapsto> (65, 40), 1 \<mapsto> (65, 40)],
         rain_map = [0 \<mapsto> 0, 1 \<mapsto> 0]\<rparr>" "[65, 65, 65, 65]" "[40, 40, 40, 40]" "''Farley''" 65 False]
      f0 [symmetric]
  have a: "StatsText (1 / 2) TBD \<notin> set (plot_location_forecast
        [at_time 0 6 0, at_time 0 9 30, at_time 1 6 0, at_time 1 9 30] [65, 65, 65, 65] [40, 40, 40, 40]
        \<lparr>alpha_map = [0 \<mapsto> 8 / 10, 1 \<mapsto> 8 / 10], day_metrics = [0 \<mapsto> (65, 40), 1 \<mapsto> (65, 40)],
         rain_map = [0 \<mapsto> 0, 1 \<mapsto> 0]\<rparr>
        (all_days_of [at_time 0 6 0, at_time 0 9 30, at_time 1 6 0, at_time 1 9 30]) ''Farley'' 65 False)"
    by simp
  from incomplete_day_tbd [OF h1 n1, of
        "\<lparr>alpha_map = [0 \<mapsto> 8 / 10, 1 \<mapsto> 8 / 10], day_metrics = [0 \<mapsto> (65, 40), 1 \<mapsto> (65, 40)],
         rain_map = [0 \<mapsto> 0, 1 \<mapsto> 0]\<rparr>" "[65, 65, 65, 65]" "[40, 40, 40, 40]" "''Farley''" 65 False]
      f1 a h0 h1 f0 n0 n1
  show ?thesis by simp
qed

text \<open>
  C7 (as stated: every day with positive max precipitation gets a rain glyph and the
  value in inches, including the first day in range). A location whose only day has 2 mm
  of rain at 10:00: the recorded precipitation of the day is 2, yet the band holds no
  rain glyph and no rain text, because the renderer skips the first day of the range.
\<close>

theorem first_day_rain_no_glyph:
  "rain_on [at_time 0 10 0, at_time 0 13 0] [65, 66] [40, 40] [2, 0] 0 = Inr (Some 2)
   \<and> draw_band 66 5 0 (''Farley'', [at_time 0 10 0, at_time 0 13 0], [65, 66], [40, 40], [2, 0])
      = Inr (Band [PlotTemps [at_time 0 10 0, at_time 0 13 0] [65, 66],
                   SetYLim 0 (66 + 66 * (5 / 100)), XTickLabels False,
                   VLine 1,
                   PlotHums [at_time 0 10 0, at_time 0 13 0] [40, 40], SetYLim 0 105,
                   Title ''Farley''])"
  by (simp add: draw_defs eval_defs rain_on_def)

text \<open>
  C7, amended: for every day of the range whose recorded max precipitation is positive,
  if the day is not the first day of the range the renderer draws the rain glyph and the
  precipitation divided by 25.4, whatever the day's favorability, metrics and
  completeness; for the first day of the range it draws neither.
\<close>

theorem rain_glyph_drawn:
  assumes "day \<in> set all_days" and "rain_map maps day = Some r" and "r > 0"
  shows "if Some day = first_day_of all_days
     then Umbrella (real_of_int day + 48 / 100)
            \<notin> set (plot_location_forecast tms temps_f hums maps all_days loc_name temp_ylim_max show_xaxis)
        \<and> (\<forall>v. RainText (real_of_int day + 52 / 100) v
            \<notin> set (plot_location_forecast tms temps_f hums maps all_days loc_name temp_ylim_max show_xaxis))
     else Umbrella (real_of_int day + 48 / 100)
            \<in> set (plot_location_forecast tms temps_f hums maps all_days loc_name temp_ylim_max show_xaxis)
        \<and> RainText (real_of_int day + 52 / 100) (r / (254 / 10))
            \<in> set (plot_location_forecast tms temps_f hums maps all_days loc_name temp_ylim_max show_xaxis)"
  unfolding umbrella_in_plot raintext_in_plot umbrella_in_day raintext_in_day
  using assms by auto

theorem rain_glyph_drawn_witness:
  "1 \<in> set [0, 1 :: int] \<and> [0 \<mapsto> 0, 1 \<mapsto> 254 / 100 :: real] 1 = Some (254 / 100)
   \<and> (0 :: real) < 254 / 100 \<and> Some 1 \<noteq> first_day_of [0, 1]
   \<and> Umbrella (148 / 100) \<in> set (plot_location_forecast
        [at_time 0 13 0, at_time 1 10 0] [65, 65] [40, 40]
        \<lparr>alpha_map = [0 \<mapsto> 8 / 10, 1 \<mapsto> 0], day_metrics = [0 \<mapsto> (65, 40), 1 \<mapsto> (65, 40)],
         rain_map = [0 \<mapsto> 0, 1 \<mapsto> 254 / 100]\<rparr> [0, 1] ''Farley'' 65 False)
   \<and> RainText (152 / 100) (1 / 10) \<in> set (plot_location_forecast
        [at_time 0 13 0, at_time 1 10 0] [65, 65] [40, 40]
        \<lparr>alpha_map = [0 \<mapsto> 8 / 10, 1 \<mapsto> 0], day_metrics = [0 \<mapsto> (65, 40), 1 \<mapsto> (65, 40)],
         rain_map = [0 \<mapsto> 0, 1 \<mapsto> 254 / 100]\<rparr> [0, 1] ''Farley'' 65 False)"
  using rain_glyph_drawn [of 1 "[0, 1]"
        "\<lparr>alpha_map = [0 \<mapsto> 8 / 10, 1 \<mapsto> 0], day_metrics = [0 \<mapsto> (65, 40), 1 \<mapsto> (65, 40)],
         rain_map = [0 \<mapsto> 0, 1 \<mapsto> 254 / 100]\<rparr>" "254 / 100"
        "[at_time 0 13 0, at_time 1 10 0]" "[65, 65]" "[40, 40]" "''Farley''" 65 False]
  by (simp add: first_day_of_def)







end
